theory Spec2Isabelle
  imports Main
begin

section \<open>Data model\<close>

text \<open>
  The two tables of the schema created at start-up (main.ts, lines 14--29):
  \<^verbatim>\<open>users(id CHARACTER(16) PRIMARY KEY, timestamp TIMESTAMP NOT NULL)\<close> and
  \<^verbatim>\<open>pastes(id CHARACTER(16) PRIMARY KEY, content TEXT NOT NULL, format VARCHAR(64) NOT NULL,
  timestamp TIMESTAMP NOT NULL, userid CHARACTER(16) REFERENCES users(id))\<close>.
  A timestamp is the number of milliseconds that \<^verbatim>\<open>Date.now()\<close> returned; a NULL
  \<^verbatim>\<open>userid\<close> is \<open>None\<close>.

  A JavaScript string is represented by the bytes of its UTF-8 encoding, which is also the
  form in which the store holds a text. An unpaired surrogate, which a JavaScript string
  may contain, is represented by the three bytes that the encoding scheme assigns to its
  code point: \<open>0xED\<close>, a byte from \<open>0xA0\<close> to \<open>0xBF\<close> and a continuation byte. The code
  only tests strings for emptiness, joins them with ASCII text and passes them on, all of
  which reads the same on the bytes.
\<close>

record user_row =
  u_id :: string
  u_timestamp :: int

record paste_row =
  p_id :: string
  p_content :: string
  p_format :: string
  p_timestamp :: int
  p_userid :: "string option"

text \<open>A row of a result set, as the array that a query resolves to holds them.\<close>

datatype row = UserRow user_row | PasteRow paste_row

text \<open>
  What \<^verbatim>\<open>ctx.response\<close> carries when a request is done: the status and the body, which
  is text, an array of rows, or was never set.
\<close>

datatype payload = NoBody | Text string | Rows "row list"

record response =
  status :: nat
  body :: payload

section \<open>Rate limiter\<close>

text \<open>
  \<^verbatim>\<open>interface ClientData { count: number; lastRequestTime: number; }\<close> and the module-level
  \<^verbatim>\<open>rateLimitMap = new Map<string, ClientData>()\<close> (lines 187--194). The numbers are
  request counts and millisecond clock readings, all integers far below \<open>2^53\<close>, where
  JavaScript's arithmetic on them is exact: they are modelled as \<open>int\<close>.
\<close>

record ClientData =
  count :: int
  lastRequestTime :: int

type_synonym rate_limit_map = "string \<rightharpoonup> ClientData"

definition RATE_LIMIT_WINDOW :: int where
  "RATE_LIMIT_WINDOW = 10 * 1000"

definition MAX_REQUESTS :: int where
  "MAX_REQUESTS = 10"

definition rate_limited :: response where
  "rate_limited = \<lparr>status = 429, body = Text ''You're being rate limited. Try again later''\<rparr>"

text \<open>
  Lines 197--216 of \<^verbatim>\<open>rateLimiter\<close>: the map is read, tested and written without an
  \<^verbatim>\<open>await\<close> in between. The result is the map afterwards and either the response of the
  early \<^verbatim>\<open>return\<close> (\<open>Some\<close>) or \<open>None\<close> when control reaches \<^verbatim>\<open>await next()\<close>.
  The increment mutates the object held by the map; the \<^verbatim>\<open>set\<close> that follows stores the
  same object again.
\<close>

definition rateLimiter :: "rate_limit_map \<Rightarrow> string \<Rightarrow> int \<Rightarrow> rate_limit_map \<times> response option" where
  "rateLimiter m clientIp timestamp =
     (case m clientIp of
        None \<Rightarrow> (m(clientIp \<mapsto> \<lparr>count = 1, lastRequestTime = timestamp\<rparr>), None)
      | Some clientData \<Rightarrow>
          if timestamp > lastRequestTime clientData + RATE_LIMIT_WINDOW
          then (m(clientIp \<mapsto> \<lparr>count = 1, lastRequestTime = timestamp\<rparr>), None)
          else if count clientData > MAX_REQUESTS
          then (m, Some rate_limited)
          else (m(clientIp \<mapsto> clientData\<lparr>count := count clientData + 1\<rparr>), None))"

text \<open>
  A sequence of requests of one client, given by the clock reading of each: the limiter
  runs once per request, on the map the previous request left.
\<close>

fun replay :: "rate_limit_map \<Rightarrow> string \<Rightarrow> int list \<Rightarrow> rate_limit_map \<times> response option list" where
  "replay m clientIp [] = (m, [])"
| "replay m clientIp (t # ts) =
     (case rateLimiter m clientIp t of
        (m1, r) \<Rightarrow> (case replay m1 clientIp ts of (m2, rs) \<Rightarrow> (m2, r # rs)))"

definition admitted :: "response option list \<Rightarrow> nat" where
  "admitted rs = length (filter (\<lambda>r. r = None) rs)"

section \<open>The relational store\<close>

text \<open>
  The store is the PostgreSQL server behind the \<^verbatim>\<open>sql\<close> tag. Its model follows the
  schema of lines 14--29 and the six statements that the handlers send.

  A text parameter reaches the server as the UTF-8 encoding of the JavaScript string. The
  encoder writes the replacement character U+FFFD (bytes \<open>0xEF 0xBF 0xBD\<close>) in the place of
  every unpaired surrogate, and the server refuses a text that contains the character
  U+0000.
\<close>

definition surrogate_lead :: "char \<Rightarrow> char \<Rightarrow> bool" where
  "surrogate_lead a b = (a = CHR 0xED \<and> (0xA0::nat) \<le> of_char b \<and> of_char b \<le> (0xBF::nat))"

fun toWellFormed :: "string \<Rightarrow> string" where
  "toWellFormed (a # b # c # s) =
     (if surrogate_lead a b then CHR 0xEF # CHR 0xBF # CHR 0xBD # toWellFormed s
      else a # toWellFormed (b # c # s))"
| "toWellFormed s = s"

definition has_nul :: "string \<Rightarrow> bool" where
  "has_nul s = (CHR 0x00 \<in> set s)"

definition text_value :: "string \<Rightarrow> string option" where
  "text_value s = (if has_nul s then None else Some (toWellFormed s))"

text \<open>A string is well formed when it holds no unpaired surrogate.\<close>

definition well_formed :: "string \<Rightarrow> bool" where
  "well_formed s = (toWellFormed s = s)"

text \<open>
  The server counts the length of a text in characters: every byte of the encoding that is
  not a continuation byte (\<open>0x80\<close> to \<open>0xBF\<close>) starts one.
\<close>

definition continuation :: "char \<Rightarrow> bool" where
  "continuation c = ((0x80::nat) \<le> of_char c \<and> of_char c \<le> (0xBF::nat))"

definition char_length :: "string \<Rightarrow> nat" where
  "char_length s = length (filter (\<lambda>c. \<not> continuation c) s)"

text \<open>
  Two column types of the schema have a declared length. A value assigned to a
  \<^verbatim>\<open>CHARACTER(n)\<close> or \<^verbatim>\<open>VARCHAR(n)\<close> column may be longer than \<open>n\<close> characters only by
  trailing spaces, which are cut; any other over-long value is refused. \<^verbatim>\<open>CHARACTER(n)\<close>
  pads a shorter value with spaces to \<open>n\<close> characters, and two \<^verbatim>\<open>CHARACTER\<close> values are
  compared without their trailing spaces. \<^verbatim>\<open>TEXT\<close> has no length.
\<close>

definition rtrim :: "string \<Rightarrow> string" where
  "rtrim s = rev (dropWhile (\<lambda>c. c = CHR '' '') (rev s))"

definition bpchar_eq :: "string \<Rightarrow> string \<Rightarrow> bool" where
  "bpchar_eq a b = (rtrim a = rtrim b)"

definition fit :: "nat \<Rightarrow> string \<Rightarrow> string" where
  "fit n s = rtrim s @ replicate (n - char_length (rtrim s)) (CHR '' '')"

definition character :: "nat \<Rightarrow> string \<Rightarrow> string option" where
  "character n s = (if char_length (rtrim s) \<le> n then Some (fit n s) else None)"

definition varchar :: "nat \<Rightarrow> string \<Rightarrow> string option" where
  "varchar n s =
     (if char_length s \<le> n then Some s
      else if char_length (rtrim s) \<le> n then Some (fit n s)
      else None)"

text \<open>
  The statements of main.ts, with the values of their parameters:
  the \<^verbatim>\<open>INSERT INTO users\<close> of line 63, the \<^verbatim>\<open>SELECT * FROM users WHERE id=\<close> of line 42,
  the two \<^verbatim>\<open>INSERT INTO pastes\<close> of lines 91 and 101 (without and with \<^verbatim>\<open>userid\<close>), and
  the \<^verbatim>\<open>SELECT * FROM pastes\<close> of lines 129 (by \<^verbatim>\<open>id\<close>) and 167 (by \<^verbatim>\<open>userid\<close>).
\<close>

datatype query =
    InsertUser string int
  | SelectUser string
  | InsertPaste string string string int
  | InsertPasteOwned string string string string int
  | SelectPaste string
  | SelectPastesOf string

datatype sql_error = ConnectionFailure | ConstraintViolation | InvalidText

text \<open>
  The state of the store: the rows of both tables, whether the server can be reached,
  and the statements sent to it so far, oldest first.
\<close>

record store =
  users :: "user_row list"
  pastes :: "paste_row list"
  online :: bool
  issued :: "query list"

text \<open>
  A parameter as the value of a column: the text the server receives, fitted to the
  column's type.
\<close>

definition text_column :: "string \<Rightarrow> sql_error + string" where
  "text_column s = (case text_value s of None \<Rightarrow> Inl InvalidText | Some s1 \<Rightarrow> Inr s1)"

definition character16 :: "string \<Rightarrow> sql_error + string" where
  "character16 s =
     (case text_value s of
        None \<Rightarrow> Inl InvalidText
      | Some s1 \<Rightarrow> (case character 16 s1 of None \<Rightarrow> Inl ConstraintViolation | Some s2 \<Rightarrow> Inr s2))"

definition varchar64 :: "string \<Rightarrow> sql_error + string" where
  "varchar64 s =
     (case text_value s of
        None \<Rightarrow> Inl InvalidText
      | Some s1 \<Rightarrow> (case varchar 64 s1 of None \<Rightarrow> Inl ConstraintViolation | Some s2 \<Rightarrow> Inr s2))"

text \<open>
  Whether a table holds a row with the stored identifier \<open>i\<close>, and whether a \<^verbatim>\<open>SELECT\<close>
  with the parameter \<open>i\<close> finds one.
\<close>

definition user_stored :: "store \<Rightarrow> string \<Rightarrow> bool" where
  "user_stored st i = list_ex (\<lambda>r. bpchar_eq (u_id r) i) (users st)"

definition paste_stored :: "store \<Rightarrow> string \<Rightarrow> bool" where
  "paste_stored st i = list_ex (\<lambda>r. bpchar_eq (p_id r) i) (pastes st)"

definition user_exists :: "store \<Rightarrow> string \<Rightarrow> bool" where
  "user_exists st i = (case text_value i of None \<Rightarrow> False | Some i1 \<Rightarrow> user_stored st i1)"

definition paste_exists :: "store \<Rightarrow> string \<Rightarrow> bool" where
  "paste_exists st i = (case text_value i of None \<Rightarrow> False | Some i1 \<Rightarrow> paste_stored st i1)"

definition owned_by :: "string \<Rightarrow> paste_row \<Rightarrow> bool" where
  "owned_by i r = (case p_userid r of None \<Rightarrow> False | Some u \<Rightarrow> bpchar_eq u i)"

text \<open>
  One statement on a reachable server. A statement is refused when a parameter holds
  U+0000; an insertion is also refused when a value does not fit its column, when the
  primary key is taken, or when \<^verbatim>\<open>userid\<close> references no user. An \<^verbatim>\<open>INSERT\<close> resolves to
  the empty array.
\<close>

fun exec :: "store \<Rightarrow> query \<Rightarrow> sql_error + store \<times> row list" where
  "exec st (InsertUser i ts) =
     (case character16 i of
        Inl e \<Rightarrow> Inl e
      | Inr i' \<Rightarrow>
          if user_stored st i' then Inl ConstraintViolation
          else Inr (st\<lparr>users := users st @ [\<lparr>u_id = i', u_timestamp = ts\<rparr>]\<rparr>, []))"
| "exec st (SelectUser i) =
     (case text_column i of
        Inl e \<Rightarrow> Inl e
      | Inr i' \<Rightarrow> Inr (st, map UserRow (filter (\<lambda>r. bpchar_eq (u_id r) i') (users st))))"
| "exec st (InsertPaste i c f ts) =
     (case character16 i of
        Inl e \<Rightarrow> Inl e
      | Inr i' \<Rightarrow>
          (case text_column c of
             Inl e \<Rightarrow> Inl e
           | Inr c' \<Rightarrow>
               (case varchar64 f of
                  Inl e \<Rightarrow> Inl e
                | Inr f' \<Rightarrow>
                    if paste_stored st i' then Inl ConstraintViolation
                    else Inr (st\<lparr>pastes := pastes st @
                               [\<lparr>p_id = i', p_content = c', p_format = f', p_timestamp = ts,
                                 p_userid = None\<rparr>]\<rparr>, []))))"
| "exec st (InsertPasteOwned i c f u ts) =
     (case character16 i of
        Inl e \<Rightarrow> Inl e
      | Inr i' \<Rightarrow>
          (case text_column c of
             Inl e \<Rightarrow> Inl e
           | Inr c' \<Rightarrow>
               (case varchar64 f of
                  Inl e \<Rightarrow> Inl e
                | Inr f' \<Rightarrow>
                    (case character16 u of
                       Inl e \<Rightarrow> Inl e
                     | Inr u' \<Rightarrow>
                         if paste_stored st i' then Inl ConstraintViolation
                         else if user_stored st u'
                         then Inr (st\<lparr>pastes := pastes st @
                                    [\<lparr>p_id = i', p_content = c', p_format = f',
                                      p_timestamp = ts, p_userid = Some u'\<rparr>]\<rparr>, [])
                         else Inl ConstraintViolation))))"
| "exec st (SelectPaste i) =
     (case text_column i of
        Inl e \<Rightarrow> Inl e
      | Inr i' \<Rightarrow> Inr (st, map PasteRow (filter (\<lambda>r. bpchar_eq (p_id r) i') (pastes st))))"
| "exec st (SelectPastesOf i) =
     (case text_column i of
        Inl e \<Rightarrow> Inl e
      | Inr i' \<Rightarrow> Inr (st, map PasteRow (filter (owned_by i') (pastes st))))"

text \<open>
  \<^verbatim>\<open>await sql`...`\<close>: the statement is sent and recorded; the promise is rejected
  (\<open>Inl\<close>) when the server cannot be reached or refuses the statement, and resolves to the
  rows otherwise.
\<close>

definition sql :: "store \<Rightarrow> query \<Rightarrow> store \<times> (sql_error + row list)" where
  "sql st q =
     (let st1 = st\<lparr>issued := issued st @ [q]\<rparr> in
      if online st
      then (case exec st1 q of
              Inl e \<Rightarrow> (st1, Inl e)
            | Inr (st2, rows) \<Rightarrow> (st2, Inr rows))
      else (st1, Inl ConnectionFailure))"

section \<open>Identifiers\<close>

definition alphabet :: string where
  "alphabet = ''0123456789ABCDEFGHIJKLMNOPQRSTUVWXYZ''"

text \<open>
  Modelled from the spec: \<^verbatim>\<open>customAlphabet\<close> is imported from the package
  \<^verbatim>\<open>jsr:@viki/nanoid\<close> (line 2) and is not part of main.ts. The specification says that the
  generator "produces a 16-character string drawn uniformly from the fixed alphabet".
  The model draws the characters one by one from a supply of random numbers: a number
  below the alphabet's length selects the symbol at that index, any other number is
  discarded, and the identifier is returned as soon as it has the requested size. A
  supply that ends before that is a generator that has not returned: \<open>None\<close>.
\<close>

fun customAlphabet :: "string \<Rightarrow> nat \<Rightarrow> nat list \<Rightarrow> string \<Rightarrow> string option" where
  "customAlphabet a n [] acc = None"
| "customAlphabet a n (d # ds) acc =
     (let acc' = (if d < length a then acc @ [a ! d] else acc) in
      if n \<le> length acc' then Some acc' else customAlphabet a n ds acc')"

text \<open>\<^verbatim>\<open>generateId\<close> (lines 31--35), on the random numbers its call consumes.\<close>

definition generateId :: "nat list \<Rightarrow> string option" where
  "generateId draws = customAlphabet alphabet 16 draws []"

section \<open>Request handlers\<close>

text \<open>
  An \<^verbatim>\<open>async\<close> function returns a promise. \<^verbatim>\<open>await\<close> yields the value it resolves to;
  used as a condition without \<^verbatim>\<open>await\<close>, the promise is an object, and every object is
  truthy.
\<close>

datatype 'a promise = Promise 'a

fun await :: "'a promise \<Rightarrow> 'a" where
  "await (Promise v) = v"

fun truthy :: "'a promise \<Rightarrow> bool" where
  "truthy (Promise v) = True"

text \<open>
  \<^verbatim>\<open>validateUser\<close> (lines 37--54): \<open>False\<close> when the query is rejected and when it finds
  no row.
\<close>

definition validateUser :: "store \<Rightarrow> string \<Rightarrow> store \<times> bool promise" where
  "validateUser st id' =
     (case sql st (SelectUser id') of
        (st1, Inl error) \<Rightarrow> (st1, Promise False)
      | (st1, Inr userExistsRes) \<Rightarrow>
          if userExistsRes = [] then (st1, Promise False) else (st1, Promise True))"

text \<open>
  \<^verbatim>\<open>GET /create-user\<close> (lines 58--76). The handlers take the store, the identifier that
  \<^verbatim>\<open>generateId()\<close> returned and the reading of \<^verbatim>\<open>Date.now()\<close>, and return the store
  afterwards and the response.
\<close>

definition create_user :: "store \<Rightarrow> string \<Rightarrow> int \<Rightarrow> store \<times> response" where
  "create_user st id' timestamp =
     (case sql st (InsertUser id' timestamp) of
        (st1, Inl error) \<Rightarrow>
          (st1, \<lparr>status = 400,
                 body = Text ''Couldn't create user for some reason, ask devs to check the logs''\<rparr>)
      | (st1, Inr insertUserRes) \<Rightarrow> (st1, \<lparr>status = 200, body = Text id'\<rparr>))"

text \<open>
  The body of \<^verbatim>\<open>POST /create-paste\<close>: \<^verbatim>\<open>content\<close> and \<^verbatim>\<open>format\<close> are strings;
  \<^verbatim>\<open>userid\<close> is declared \<^verbatim>\<open>string | null\<close> and is \<^verbatim>\<open>undefined\<close> when the property is
  absent. \<^verbatim>\<open>!userid\<close> holds for \<^verbatim>\<open>undefined\<close>, \<^verbatim>\<open>null\<close> and the empty string.
\<close>

datatype js_string = Undefined | Null | Str string

fun falsy :: "js_string \<Rightarrow> bool" where
  "falsy Undefined = True"
| "falsy Null = True"
| "falsy (Str s) = (s = [])"

fun str :: "js_string \<Rightarrow> string" where
  "str (Str s) = s"
| "str Undefined = []"
| "str Null = []"

record paste_body =
  content :: string
  format :: string
  userid :: js_string

text \<open>
  The end of the \<^verbatim>\<open>try\<close> block of \<^verbatim>\<open>/create-paste\<close>: a rejected insertion is caught
  (lines 105--111), otherwise the identifier is returned (lines 113--114).
\<close>

definition paste_inserted :: "string \<Rightarrow> store \<times> (sql_error + row list) \<Rightarrow> store \<times> response" where
  "paste_inserted id' res =
     (case res of
        (st1, Inl error) \<Rightarrow>
          (st1, \<lparr>status = 400,
                 body = Text ''Couldn't create paste for some reason, ask devs to check the logs''\<rparr>)
      | (st1, Inr insertPasteRes) \<Rightarrow> (st1, \<lparr>status = 200, body = Text id'\<rparr>))"

text \<open>\<^verbatim>\<open>POST /create-paste\<close> (lines 78--115).\<close>

definition create_paste :: "store \<Rightarrow> string \<Rightarrow> int \<Rightarrow> paste_body \<Rightarrow> store \<times> response" where
  "create_paste st id' timestamp b =
     (if falsy (userid b)
      then paste_inserted id' (sql st (InsertPaste id' (content b) (format b) timestamp))
      else (case validateUser st (str (userid b)) of
              (st1, valid) \<Rightarrow>
                if \<not> await valid
                then (st1, \<lparr>status = 403, body = Text ''You are not authorized to make this paste.''\<rparr>)
                else paste_inserted id'
                       (sql st1 (InsertPasteOwned id' (content b) (format b) (str (userid b))
                                   timestamp))))"

definition must_pass_id :: response where
  "must_pass_id = \<lparr>status = 400, body = Text ''Must pass an id string''\<rparr>"

definition read_failed :: response where
  "read_failed = \<lparr>status = 403,
     body = Text ''Couldn't execute read paste SQL for some reason, ask devs to check the logs''\<rparr>"

text \<open>
  \<^verbatim>\<open>GET /read-paste/:id\<close> (lines 117--147); \<open>None\<close> is an \<^verbatim>\<open>undefined\<close> route
  parameter.
\<close>

definition read_paste :: "store \<Rightarrow> string option \<Rightarrow> store \<times> response" where
  "read_paste st param =
     (case param of
        None \<Rightarrow> (st, must_pass_id)
      | Some id' \<Rightarrow>
          if id' = [] then (st, must_pass_id)
          else (case sql st (SelectPaste id') of
                  (st1, Inl error) \<Rightarrow> (st1, read_failed)
                | (st1, Inr pasteRes) \<Rightarrow>
                    if pasteRes = []
                    then (st1, \<lparr>status = 404, body = Text (''No paste with id '' @ id' @ '' found'')\<rparr>)
                    else (st1, \<lparr>status = 200, body = Rows pasteRes\<rparr>)))"

text \<open>
  \<^verbatim>\<open>GET /read-pastes/:id\<close> (lines 149--185). Line 158 tests \<^verbatim>\<open>!validateUser(id)\<close>: the
  call sends its query, and the condition negates the promise itself.
\<close>

definition read_pastes :: "store \<Rightarrow> string option \<Rightarrow> store \<times> response" where
  "read_pastes st param =
     (case param of
        None \<Rightarrow> (st, must_pass_id)
      | Some id' \<Rightarrow>
          if id' = [] then (st, must_pass_id)
          else (case validateUser st id' of
                  (st1, valid) \<Rightarrow>
                    if \<not> truthy valid
                    then (st1, \<lparr>status = 403,
                                 body = Text ''You are not authorized to read this profile''\<rparr>)
                    else (case sql st1 (SelectPastesOf id') of
                            (st2, Inl error) \<Rightarrow> (st2, read_failed)
                          | (st2, Inr pasteRes) \<Rightarrow>
                              if pasteRes = []
                              then (st2, \<lparr>status = 404,
                                           body = Text (''No user with id '' @ id' @ '' found'')\<rparr>)
                              else (st2, \<lparr>status = 200, body = Rows pasteRes\<rparr>))))"

section \<open>Application\<close>

text \<open>
  A request as the handlers and the limiter read it: the client address, the method, the
  decoded segments of the path (a trailing slash adds none), the parsed JSON body (read by \<^verbatim>\<open>/create-paste\<close> only), and the two
  values that the code obtains from its environment while serving the request, the reading
  of \<^verbatim>\<open>Date.now()\<close> and the identifier returned by \<^verbatim>\<open>generateId()\<close>.
\<close>

datatype http_method = GET | HEAD | POST | OtherMethod

record request =
  ip :: string
  verb :: http_method
  path :: "string list"
  json :: paste_body
  clock :: int
  nanoid :: string

text \<open>The state shared by all requests: the store and the module-level map of the limiter.\<close>

record world =
  db :: store
  rateLimitMap :: rate_limit_map

text \<open>
  The middleware protocol of the Oak framework (imported at line 1, not part of main.ts):
  the application calls its middleware in the order of the \<^verbatim>\<open>app.use\<close> calls; each one
  receives the context and \<^verbatim>\<open>next\<close>, which runs the rest of the stack, and the stack ends
  when a middleware returns without calling \<^verbatim>\<open>next\<close>. A middleware is a function of the
  request, of the continuation \<^verbatim>\<open>next\<close> and of the shared state with the response so far.
\<close>

type_synonym exchange = "world \<times> response"

type_synonym middleware = "request \<Rightarrow> (exchange \<Rightarrow> exchange) \<Rightarrow> exchange \<Rightarrow> exchange"

fun compose :: "middleware list \<Rightarrow> request \<Rightarrow> exchange \<Rightarrow> exchange" where
  "compose [] req = (\<lambda>x. x)"
| "compose (mw # rest) req = mw req (compose rest req)"

text \<open>
  The router compares a segment of the path with the name in a route without regard to
  the case of the letters A to Z.
\<close>

definition fold_case :: "char \<Rightarrow> nat" where
  "fold_case c = (if (65::nat) \<le> of_char c \<and> of_char c \<le> (90::nat) then of_char c + 32 else of_char c)"

definition segment_is :: "string \<Rightarrow> string \<Rightarrow> bool" where
  "segment_is name seg = (map fold_case seg = map fold_case name)"

text \<open>A path \<^verbatim>\<open>/name\<close>: exactly one segment.\<close>

definition route :: "string \<Rightarrow> string list \<Rightarrow> bool" where
  "route name p = (case p of [a] \<Rightarrow> segment_is name a | _ \<Rightarrow> False)"

text \<open>
  The route parameter of a path \<^verbatim>\<open>/name/:id\<close>: the second of exactly two segments, which
  must not be empty.
\<close>

definition param :: "string \<Rightarrow> string list \<Rightarrow> string option" where
  "param name p =
     (case p of
        [a, b] \<Rightarrow> if segment_is name a then (if b = [] then None else Some b) else None
      | _ \<Rightarrow> None)"

definition is_get :: "http_method \<Rightarrow> bool" where
  "is_get v = (v = GET \<or> v = HEAD)"

text \<open>A handler runs on the store and sets both the status and the body of the response.\<close>

definition on_store :: "(store \<Rightarrow> store \<times> response) \<Rightarrow> exchange \<Rightarrow> exchange" where
  "on_store handler = (\<lambda>(w, res). case handler (db w) of (st, r) \<Rightarrow> (w\<lparr>db := st\<rparr>, r))"

text \<open>
  \<^verbatim>\<open>router.routes()\<close> with the four routes registered at lines 58, 78, 117 and 149
  (\<^verbatim>\<open>router.get\<close> also answers \<^verbatim>\<open>HEAD\<close>). The handlers of main.ts take \<^verbatim>\<open>ctx\<close> only
  and never call \<^verbatim>\<open>next\<close>; the router calls \<^verbatim>\<open>next\<close> when no route matches.
\<close>

definition routes :: middleware where
  "routes req next =
     (if is_get (verb req) \<and> route ''create-user'' (path req)
      then on_store (\<lambda>st. create_user st (nanoid req) (clock req))
      else if verb req = POST \<and> route ''create-paste'' (path req)
      then on_store (\<lambda>st. create_paste st (nanoid req) (clock req) (json req))
      else if is_get (verb req) \<and> param ''read-paste'' (path req) \<noteq> None
      then on_store (\<lambda>st. read_paste st (param ''read-paste'' (path req)))
      else if is_get (verb req) \<and> param ''read-pastes'' (path req) \<noteq> None
      then on_store (\<lambda>st. read_pastes st (param ''read-pastes'' (path req)))
      else next)"

text \<open>
  \<^verbatim>\<open>rateLimiter\<close> as a middleware (lines 196--220): the early \<^verbatim>\<open>return\<close> sets the
  response and ends the stack, every other branch ends in \<^verbatim>\<open>await next()\<close>.
\<close>

definition rateLimiter_middleware :: middleware where
  "rateLimiter_middleware req next =
     (\<lambda>(w, res).
        case rateLimiter (rateLimitMap w) (ip req) (clock req) of
          (m, Some r) \<Rightarrow> (w\<lparr>rateLimitMap := m\<rparr>, r)
        | (m, None) \<Rightarrow> next (w\<lparr>rateLimitMap := m\<rparr>, res))"

text \<open>
  Lines 222--225: \<^verbatim>\<open>app.use(router.routes()); app.use(router.allowedMethods());
  app.use(rateLimiter);\<close> in this order. \<^verbatim>\<open>router.allowedMethods()\<close> belongs to the framework
  and is a parameter here. A response that no middleware has touched has status 404 and no
  body.
\<close>

definition app :: "middleware \<Rightarrow> request \<Rightarrow> world \<Rightarrow> world \<times> response" where
  "app allowedMethods req w =
     compose [routes, allowedMethods, rateLimiter_middleware] req (w, \<lparr>status = 404, body = NoBody\<rparr>)"

section \<open>Properties of the rate limiter\<close>

lemma rateLimiter_reject_keeps_map:
  "rateLimiter m clientIp t = (m', Some r) \<Longrightarrow> m' = m \<and> r = rate_limited"
  by (auto simp: rateLimiter_def split: option.splits if_splits)

lemma replay_keeps_window:
  "m clientIp = Some cd \<Longrightarrow> list_all (\<lambda>u. u \<le> lastRequestTime cd + RATE_LIMIT_WINDOW) ts \<Longrightarrow>
   \<exists>cd'. fst (replay m clientIp ts) clientIp = Some cd' \<and> lastRequestTime cd' = lastRequestTime cd"
proof (induction ts arbitrary: m cd)
  case Nil
  then show ?case by simp
next
  case (Cons t ts)
  from Cons.prems have inside: "\<not> t > lastRequestTime cd + RATE_LIMIT_WINDOW"
    and rest: "list_all (\<lambda>u. u \<le> lastRequestTime cd + RATE_LIMIT_WINDOW) ts"
    by simp_all
  obtain m1 r where step: "rateLimiter m clientIp t = (m1, r)"
    by (cases "rateLimiter m clientIp t")
  with Cons.prems(1) inside obtain cd1 where
    cd1: "m1 clientIp = Some cd1" "lastRequestTime cd1 = lastRequestTime cd"
    by (auto simp: rateLimiter_def split: if_splits)
  from rest cd1 have "list_all (\<lambda>u. u \<le> lastRequestTime cd1 + RATE_LIMIT_WINDOW) ts"
    by simp
  with Cons.IH [of m1 cd1] cd1 step show ?case
    by (auto split: prod.splits)
qed

lemma replay_Cons_snd:
  "snd (replay m clientIp (t # ts))
     = snd (rateLimiter m clientIp t) # snd (replay (fst (rateLimiter m clientIp t)) clientIp ts)"
  by (simp split: prod.splits)

text \<open>
  What the limiter does guarantee: while a window is open, the number of requests it passes
  on is bounded by \<open>MAX_REQUESTS + 1\<close> minus the count already recorded, so a window opened
  by a client's first request admits at most eleven requests.
\<close>

lemma replay_admits_at_most:
  "m clientIp = Some cd \<Longrightarrow> list_all (\<lambda>u. u \<le> lastRequestTime cd + RATE_LIMIT_WINDOW) ts \<Longrightarrow>
   int (admitted (snd (replay m clientIp ts))) \<le> max 0 (MAX_REQUESTS + 1 - count cd)"
proof (induction ts arbitrary: m cd)
  case Nil
  then show ?case by (simp add: admitted_def)
next
  case (Cons t ts)
  from Cons.prems have inside: "\<not> t > lastRequestTime cd + RATE_LIMIT_WINDOW"
    and rest: "list_all (\<lambda>u. u \<le> lastRequestTime cd + RATE_LIMIT_WINDOW) ts"
    by simp_all
  show ?case
  proof (cases "count cd > MAX_REQUESTS")
    case True
    with Cons.prems(1) inside have step: "rateLimiter m clientIp t = (m, Some rate_limited)"
      by (simp add: rateLimiter_def)
    from Cons.IH [of m cd] Cons.prems(1) rest step show ?thesis
      by (simp add: admitted_def replay_Cons_snd del: replay.simps)
  next
    case False
    let ?cd = "cd\<lparr>count := count cd + 1\<rparr>"
    let ?m = "m(clientIp \<mapsto> ?cd)"
    from False Cons.prems(1) inside have step: "rateLimiter m clientIp t = (?m, None)"
      by (simp add: rateLimiter_def)
    have "?m clientIp = Some ?cd" by simp
    moreover from rest have "list_all (\<lambda>u. u \<le> lastRequestTime ?cd + RATE_LIMIT_WINDOW) ts"
      by simp
    ultimately have "int (admitted (snd (replay ?m clientIp ts))) \<le> max 0 (MAX_REQUESTS + 1 - count ?cd)"
      by (rule Cons.IH)
    with False step show ?thesis
      by (simp add: admitted_def replay_Cons_snd del: replay.simps)
  qed
qed

lemma window_admits_at_most:
  assumes "m clientIp = None" and "list_all (\<lambda>u. u \<le> t0 + RATE_LIMIT_WINDOW) ts"
  shows "int (admitted (snd (replay m clientIp (t0 # ts)))) \<le> MAX_REQUESTS + 1"
proof -
  let ?cd = "\<lparr>count = 1, lastRequestTime = t0\<rparr>"
  let ?m = "m(clientIp \<mapsto> ?cd)"
  from assms(1) have step: "rateLimiter m clientIp t0 = (?m, None)"
    by (simp add: rateLimiter_def)
  have "int (admitted (snd (replay ?m clientIp ts))) \<le> max 0 (MAX_REQUESTS + 1 - count ?cd)"
    using replay_admits_at_most [of ?m clientIp ?cd ts] assms(2) by simp
  with step show ?thesis
    by (simp add: admitted_def MAX_REQUESTS_def replay_Cons_snd del: replay.simps)
qed

text \<open>
  C1, evaluated on the code. Eleven requests of one client arrive at milliseconds
  0, 1, ..., 10, all inside the 10 s window that the first one opens. The test of line 209
  is \<^verbatim>\<open>count > MAX_REQUESTS\<close>, so the eleventh request finds \<open>count = 10\<close>, is passed on to
  \<^verbatim>\<open>next()\<close> and raises the count to 11; only the twelfth receives 429, and that
  rejection leaves the record as it was.
\<close>

theorem rateLimiter_eleventh_request_passes:
  "replay Map.empty clientIp [0, 1, 2, 3, 4, 5, 6, 7, 8, 9, 10]
     = ([clientIp \<mapsto> \<lparr>count = 11, lastRequestTime = 0\<rparr>], replicate 11 None)
   \<and> rateLimiter [clientIp \<mapsto> \<lparr>count = 11, lastRequestTime = 0\<rparr>] clientIp 11
     = ([clientIp \<mapsto> \<lparr>count = 11, lastRequestTime = 0\<rparr>], Some rate_limited)"
  by (simp add: rateLimiter_def RATE_LIMIT_WINDOW_def MAX_REQUESTS_def numeral_eq_Suc)

text \<open>
  C4, evaluated on the code. Eleven requests of one client that all read the same clock
  value are served one after the other (the limiter's read, test and write contain no
  suspension point); every one of them is passed on, so eleven requests are admitted in
  one window although \<^verbatim>\<open>MAX_REQUESTS\<close> is 10.
\<close>

theorem rateLimiter_burst_exceeds_capacity:
  "admitted (snd (replay Map.empty clientIp (replicate 11 t))) = 11
   \<and> int (admitted (snd (replay Map.empty clientIp (replicate 11 t)))) > MAX_REQUESTS"
  by (simp add: admitted_def rateLimiter_def RATE_LIMIT_WINDOW_def MAX_REQUESTS_def numeral_eq_Suc)

text \<open>
  C7. The client's record says that its window began at \<open>lastRequestTime cd\<close>. However
  many further requests of that client arrive inside the window (each at a clock reading of
  at most \<open>lastRequestTime cd + RATE_LIMIT_WINDOW\<close>, admitted or rejected), a request at a
  time strictly later than the end of the window reaches \<^verbatim>\<open>next()\<close>, and the record it
  leaves is \<open>count = 1\<close> with the window starting at that request's time.
\<close>

theorem rateLimiter_expired_window_resets:
  assumes "m clientIp = Some cd"
    and "list_all (\<lambda>u. u \<le> lastRequestTime cd + RATE_LIMIT_WINDOW) ts"
    and "t > lastRequestTime cd + RATE_LIMIT_WINDOW"
  shows "rateLimiter (fst (replay m clientIp ts)) clientIp t
           = ((fst (replay m clientIp ts))(clientIp \<mapsto> \<lparr>count = 1, lastRequestTime = t\<rparr>), None)"
proof -
  from replay_keeps_window [of m clientIp cd ts] assms(1, 2) obtain cd' where
    "fst (replay m clientIp ts) clientIp = Some cd'" "lastRequestTime cd' = lastRequestTime cd"
    by blast
  with assms(3) show ?thesis
    by (simp add: rateLimiter_def)
qed

theorem rateLimiter_expired_window_resets_witness:
  "rateLimiter (fst (replay [''10.0.0.7'' \<mapsto> \<lparr>count = 10, lastRequestTime = 0\<rparr>]
                       ''10.0.0.7'' [3, 4, 10000])) ''10.0.0.7'' 10001
     = ((fst (replay [''10.0.0.7'' \<mapsto> \<lparr>count = 10, lastRequestTime = 0\<rparr>]
                ''10.0.0.7'' [3, 4, 10000]))(''10.0.0.7'' \<mapsto> \<lparr>count = 1, lastRequestTime = 10001\<rparr>),
        None)
   \<and> snd (replay [''10.0.0.7'' \<mapsto> \<lparr>count = 10, lastRequestTime = 0\<rparr>] ''10.0.0.7'' [3, 4, 10000])
     = [None, Some rate_limited, Some rate_limited]"
proof -
  have h1: "[''10.0.0.7'' \<mapsto> \<lparr>count = 10, lastRequestTime = 0\<rparr>] ''10.0.0.7''
              = Some \<lparr>count = 10, lastRequestTime = 0\<rparr>"
    by simp
  have h2: "list_all (\<lambda>u. u \<le> lastRequestTime \<lparr>count = 10, lastRequestTime = 0\<rparr> + RATE_LIMIT_WINDOW)
              [3, 4, 10000]"
    by (simp add: RATE_LIMIT_WINDOW_def)
  have h3: "10001 > lastRequestTime \<lparr>count = 10, lastRequestTime = 0\<rparr> + RATE_LIMIT_WINDOW"
    by (simp add: RATE_LIMIT_WINDOW_def)
  have "snd (replay [''10.0.0.7'' \<mapsto> \<lparr>count = 10, lastRequestTime = 0\<rparr>] ''10.0.0.7'' [3, 4, 10000])
          = [None, Some rate_limited, Some rate_limited]"
    by (simp add: rateLimiter_def RATE_LIMIT_WINDOW_def MAX_REQUESTS_def)
  with h1 h2 h3 rateLimiter_expired_window_resets
         [of "[''10.0.0.7'' \<mapsto> \<lparr>count = 10, lastRequestTime = 0\<rparr>]" "''10.0.0.7''"
             "\<lparr>count = 10, lastRequestTime = 0\<rparr>" "[3, 4, 10000]" 10001]
  show ?thesis
    by simp
qed

section \<open>Properties of the identifiers\<close>

lemma customAlphabet_sound:
  "customAlphabet a n ds acc = Some i \<Longrightarrow> length acc < n \<Longrightarrow> set acc \<subseteq> set a \<Longrightarrow>
   length i = n \<and> set i \<subseteq> set a"
proof (induction ds arbitrary: acc)
  case Nil
  then show ?case by simp
next
  case (Cons d ds)
  let ?acc = "if d < length a then acc @ [a ! d] else acc"
  have sub: "set ?acc \<subseteq> set a" using Cons.prems(3) by auto
  have len: "length ?acc \<le> n" using Cons.prems(2) by auto
  show ?case
  proof (cases "n \<le> length ?acc")
    case True
    with Cons.prems(1) have "i = ?acc" by (simp add: Let_def)
    with True len sub show ?thesis by simp
  next
    case False
    with Cons.prems(1) have "customAlphabet a n ds ?acc = Some i" by (simp add: Let_def)
    from Cons.IH [OF this] False sub show ?thesis by simp
  qed
qed

text \<open>
  The generator returns as soon as the supply has held as many usable numbers as the
  identifier has characters.
\<close>

lemma customAlphabet_returns:
  "length acc < n \<Longrightarrow> n \<le> length acc + length (filter (\<lambda>d. d < length a) ds) \<Longrightarrow>
   \<exists>i. customAlphabet a n ds acc = Some i"
proof (induction ds arbitrary: acc)
  case Nil
  then show ?case by simp
next
  case (Cons d ds)
  then show ?case by (auto simp: Let_def)
qed

lemma alphabet_length: "length alphabet = 36"
  by (simp add: alphabet_def)

lemma alphabet_distinct: "distinct alphabet"
  by (simp add: alphabet_def)

lemma generateId_returns:
  "16 \<le> length (filter (\<lambda>d. d < 36) draws) \<Longrightarrow> \<exists>i. generateId draws = Some i"
  using customAlphabet_returns [of "[]" 16 alphabet draws]
  by (simp add: generateId_def alphabet_length)

lemma generateId_length: "generateId draws = Some i \<Longrightarrow> length i = 16"
  using customAlphabet_sound [of alphabet 16 draws "[]" i] by (simp add: generateId_def)

text \<open>
  C9. Every identifier that \<^verbatim>\<open>generateId\<close> returns has exactly 16 characters, each of
  them a symbol of the alphabet of line 32, which has 36 distinct symbols: the ten decimal
  digits followed by the 26 uppercase Latin letters.
\<close>

theorem generateId_shape:
  assumes "generateId draws = Some i"
  shows "length i = 16 \<and> set i \<subseteq> set alphabet \<and> length alphabet = 36 \<and> distinct alphabet
         \<and> alphabet = ''0123456789'' @ ''ABCDEFGHIJKLMNOPQRSTUVWXYZ''"
proof -
  from assms have "customAlphabet alphabet 16 draws [] = Some i"
    by (simp add: generateId_def)
  from customAlphabet_sound [OF this] have "length i = 16 \<and> set i \<subseteq> set alphabet"
    by simp
  moreover have "alphabet = ''0123456789'' @ ''ABCDEFGHIJKLMNOPQRSTUVWXYZ''"
    by (simp add: alphabet_def)
  ultimately show ?thesis
    using alphabet_length alphabet_distinct by simp
qed

theorem generateId_shape_witness:
  "generateId [10, 63, 0, 35, 36, 1, 2, 3, 4, 5, 6, 7, 8, 9, 11, 12, 13, 14, 15]
     = Some ''A0Z123456789BCDE''
   \<and> length ''A0Z123456789BCDE'' = 16 \<and> set ''A0Z123456789BCDE'' \<subseteq> set alphabet"
proof -
  have h: "generateId [10, 63, 0, 35, 36, 1, 2, 3, 4, 5, 6, 7, 8, 9, 11, 12, 13, 14, 15]
             = Some ''A0Z123456789BCDE''"
    by (simp add: generateId_def alphabet_def)
  from generateId_shape [OF h] h show ?thesis
    by simp
qed

section \<open>Properties of the store\<close>

lemma toWellFormed_plain: "CHR 0xED \<notin> set s \<Longrightarrow> toWellFormed s = s"
  by (induction s rule: toWellFormed.induct) (auto simp: surrogate_lead_def)

lemma char_length_plain: "list_all (\<lambda>c. \<not> continuation c) s \<Longrightarrow> char_length s = length s"
  by (simp add: char_length_def list_all_iff)

lemma dropWhile_none: "\<forall>x \<in> set xs. \<not> P x \<Longrightarrow> dropWhile P xs = xs"
  by (cases xs) simp_all

lemma rtrim_plain: "CHR '' '' \<notin> set s \<Longrightarrow> rtrim s = s"
proof -
  assume "CHR '' '' \<notin> set s"
  then have "\<forall>x \<in> set (rev s). \<not> x = CHR '' ''"
    by auto
  then have "dropWhile (\<lambda>c. c = CHR '' '') (rev s) = rev s"
    by (rule dropWhile_none)
  then show ?thesis
    by (simp add: rtrim_def)
qed

lemma alphabet_plain:
  "CHR 0xED \<notin> set alphabet" "CHR 0x00 \<notin> set alphabet" "CHR '' '' \<notin> set alphabet"
  "list_all (\<lambda>c. \<not> continuation c) alphabet"
  by (simp_all add: alphabet_def continuation_def)

lemma generateId_plain:
  assumes "generateId draws = Some i"
  shows "text_value i = Some i \<and> character 16 i = Some i \<and> i \<noteq> []"
proof -
  from assms have "customAlphabet alphabet 16 draws [] = Some i"
    by (simp add: generateId_def)
  from customAlphabet_sound [OF this] have len: "length i = 16" and sub: "set i \<subseteq> set alphabet"
    by simp_all
  from sub alphabet_plain have a: "CHR 0xED \<notin> set i" "CHR 0x00 \<notin> set i" "CHR '' '' \<notin> set i"
    by auto
  from sub alphabet_plain(4) have "list_all (\<lambda>c. \<not> continuation c) i"
    by (auto simp: list_all_iff)
  then have cl: "char_length i = 16"
    using len by (simp add: char_length_plain)
  from a have "text_value i = Some i"
    by (simp add: text_value_def has_nul_def toWellFormed_plain)
  moreover from a cl have "character 16 i = Some i"
    by (simp add: character_def fit_def rtrim_plain)
  moreover from len have "i \<noteq> []" by auto
  ultimately show ?thesis by simp
qed

lemma filter_no_match: "\<not> list_ex P xs \<Longrightarrow> filter P xs = []"
  by (induction xs) auto

lemma bpchar_eq_refl: "bpchar_eq s s"
  by (simp add: bpchar_eq_def)

lemma sql_issued: "issued (fst (sql st q)) = issued st @ [q]"
  by (cases q) (auto simp: sql_def Let_def split: sum.splits)

lemma stored_issued:
  "paste_stored (st\<lparr>issued := x\<rparr>) i = paste_stored st i"
  "user_stored (st\<lparr>issued := x\<rparr>) i = user_stored st i"
  by (simp_all add: paste_stored_def user_stored_def)

lemmas store_eval =
  sql_def Let_def character16_def varchar64_def text_column_def text_value_def has_nul_def
  surrogate_lead_def character_def varchar_def fit_def rtrim_def char_length_def
  continuation_def paste_stored_def user_stored_def bpchar_eq_def owned_by_def

lemma replicate_plain:
  "text_value s = Some s \<Longrightarrow> CHR 0xED \<notin> set s \<Longrightarrow>
   text_value (replicate n (CHR ''a'') @ s) = Some (replicate n (CHR ''a'') @ s)"
  by (auto simp: text_value_def has_nul_def toWellFormed_plain split: if_splits)

lemma char_length_replicate: "char_length (replicate n (CHR ''a'') @ s) = n + char_length s"
  by (simp add: char_length_def continuation_def)

lemma rtrim_replicate:
  "rtrim (replicate n (CHR ''a'') @ '' '') = replicate n (CHR ''a'')"
  "rtrim (replicate n (CHR ''a'')) = replicate n (CHR ''a'')"
  by (simp_all add: rtrim_plain) (simp add: rtrim_def)

lemma varchar64_trailing_space:
  "varchar64 (replicate 64 (CHR ''a'') @ '' '') = Inr (replicate 64 (CHR ''a''))"
  using replicate_plain [of "'' ''" 64] char_length_replicate [of 64 "'' ''"]
    char_length_replicate [of 64 "[]"]
  by (simp add: varchar64_def varchar_def fit_def rtrim_replicate text_value_def has_nul_def
      char_length_def continuation_def)

lemma varchar64_too_long:
  "varchar64 (replicate 65 (CHR ''a'')) = Inl ConstraintViolation"
  using replicate_plain [of "[]" 65] char_length_replicate [of 65 "[]"]
  by (simp add: varchar64_def varchar_def rtrim_replicate text_value_def has_nul_def
      char_length_def)

lemma literal_columns:
  "character16 ''AAAAAAAAAAAAAAAA'' = Inr ''AAAAAAAAAAAAAAAA''"
  "text_column ''AAAAAAAAAAAAAAAA'' = Inr ''AAAAAAAAAAAAAAAA''"
  "text_column ''x'' = Inr ''x''"
  "varchar64 ''text'' = Inr ''text''"
  "text_column [CHR ''a'', CHR 0xED, CHR 0xA0, CHR 0x80, CHR ''b'']
     = Inr [CHR ''a'', CHR 0xEF, CHR 0xBF, CHR 0xBD, CHR ''b'']"
  by (simp_all add: store_eval)

lemma character16_generated: "generateId draws = Some i \<Longrightarrow> character16 i = Inr i"
  using generateId_plain [of draws i] by (simp add: character16_def)

lemma varchar64_fits:
  "well_formed f \<Longrightarrow> char_length f \<le> 64 \<Longrightarrow> varchar64 f = Inr f' \<Longrightarrow> f' = f"
  by (auto simp: varchar64_def text_value_def varchar_def well_formed_def
      split: option.splits if_splits)

section \<open>Properties of the handlers\<close>

lemma create_paste_anonymous:
  "falsy (userid b) \<Longrightarrow>
   create_paste st id' ts b
     = paste_inserted id' (sql st (InsertPaste id' (content b) (format b) ts))"
  by (simp add: create_paste_def)

lemma sql_insert_paste_users: "users (fst (sql st (InsertPaste i c f ts))) = users st"
  by (auto simp: sql_def Let_def split: sum.splits)

text \<open>
  A successful insertion of an anonymous paste: the server is reachable, no parameter holds
  U+0000, the identifier and the format fit their columns, the identifier is not taken,
  and the row appended holds the content as the server received it.
\<close>

lemma sql_insert_paste_success:
  "sql st (InsertPaste i c f ts) = (st', Inr rows) \<Longrightarrow>
   online st \<and> \<not> has_nul c \<and>
   (\<exists>i' f'. character16 i = Inr i' \<and> varchar64 f = Inr f' \<and> \<not> paste_stored st i' \<and>
      st' = st\<lparr>issued := issued st @ [InsertPaste i c f ts],
                pastes := pastes st @ [\<lparr>p_id = i', p_content = toWellFormed c, p_format = f',
                                         p_timestamp = ts, p_userid = None\<rparr>]\<rparr>)"
  by (auto simp: sql_def Let_def text_column_def text_value_def stored_issued
      split: sum.splits if_splits)

lemma paste_inserted_status:
  "status (snd (paste_inserted i res)) = (case snd res of Inl e \<Rightarrow> 400 | Inr rows \<Rightarrow> 200)"
  by (cases res) (auto simp: paste_inserted_def split: sum.splits)

lemma paste_inserted_fst: "fst (paste_inserted i res) = fst res"
  by (cases res) (auto simp: paste_inserted_def split: sum.splits)

text \<open>
  C6. A \<^verbatim>\<open>/create-paste\<close> request carries an owner when \<^verbatim>\<open>userid\<close> is a non-empty
  string. When no row of \<^verbatim>\<open>users\<close> has that identifier, the response is 403, both tables
  are as before, and the only statement sent to the store is the \<^verbatim>\<open>SELECT\<close> of
  \<^verbatim>\<open>validateUser\<close>: no \<^verbatim>\<open>INSERT\<close> is issued. This holds whether or not the store can be
  reached.
\<close>

theorem create_paste_unknown_owner:
  assumes "userid b = Str u" and "u \<noteq> []" and "\<not> user_exists st u"
  shows "create_paste st id' ts b
           = (st\<lparr>issued := issued st @ [SelectUser u]\<rparr>,
              \<lparr>status = 403, body = Text ''You are not authorized to make this paste.''\<rparr>)"
proof -
  have "validateUser st u = (st\<lparr>issued := issued st @ [SelectUser u]\<rparr>, Promise False)"
  proof (cases "text_value u")
    case None
    then show ?thesis
      by (simp add: validateUser_def sql_def Let_def text_column_def)
  next
    case (Some u1)
    with assms(3) have "filter (\<lambda>r. bpchar_eq (u_id r) u1) (users st) = []"
      by (simp add: user_exists_def user_stored_def filter_no_match)
    with Some show ?thesis
      by (simp add: validateUser_def sql_def Let_def text_column_def)
  qed
  with assms(1, 2) show ?thesis
    by (simp add: create_paste_def)
qed

theorem create_paste_unknown_owner_witness:
  "create_paste \<lparr>users = [\<lparr>u_id = ''0123456789ABCDEF'', u_timestamp = 5\<rparr>], pastes = [],
                  online = True, issued = []\<rparr>
     ''AAAAAAAAAAAAAAAA'' 7
     \<lparr>content = ''hello'', format = ''text'', userid = Str ''ZZZZZZZZZZZZZZZZ''\<rparr>
   = (\<lparr>users = [\<lparr>u_id = ''0123456789ABCDEF'', u_timestamp = 5\<rparr>], pastes = [],
        online = True, issued = [SelectUser ''ZZZZZZZZZZZZZZZZ'']\<rparr>,
      \<lparr>status = 403, body = Text ''You are not authorized to make this paste.''\<rparr>)"
proof -
  let ?st = "\<lparr>users = [\<lparr>u_id = ''0123456789ABCDEF'', u_timestamp = 5\<rparr>], pastes = [],
               online = True, issued = []\<rparr>"
  let ?b = "\<lparr>content = ''hello'', format = ''text'', userid = Str ''ZZZZZZZZZZZZZZZZ''\<rparr>"
  have h1: "userid ?b = Str ''ZZZZZZZZZZZZZZZZ''" by simp
  have h2: "''ZZZZZZZZZZZZZZZZ'' \<noteq> []" by simp
  have h3: "\<not> user_exists ?st ''ZZZZZZZZZZZZZZZZ''"
    by (simp add: user_exists_def user_stored_def text_value_def has_nul_def toWellFormed_plain
        bpchar_eq_def rtrim_def)
  from create_paste_unknown_owner [of ?b "''ZZZZZZZZZZZZZZZZ''" ?st "''AAAAAAAAAAAAAAAA''" 7] h1 h2 h3
  show ?thesis by simp
qed

text \<open>
  C10. A \<^verbatim>\<open>userid\<close> that is the empty string or \<^verbatim>\<open>null\<close> makes \<^verbatim>\<open>!userid\<close> true, as an
  absent one does: the handler behaves exactly as for a body without \<^verbatim>\<open>userid\<close>. It sends
  one statement, the \<^verbatim>\<open>INSERT\<close> that has no \<^verbatim>\<open>userid\<close> column (so \<^verbatim>\<open>validateUser\<close>, whose
  \<^verbatim>\<open>SELECT\<close> would be recorded, is not called), the status is never 403, the table of
  users is untouched, and on success the one row appended to \<^verbatim>\<open>pastes\<close> has no owner.
\<close>

theorem create_paste_empty_userid_is_anonymous:
  assumes "u = Str [] \<or> u = Null"
  shows "create_paste st id' ts (b\<lparr>userid := u\<rparr>) = create_paste st id' ts (b\<lparr>userid := Undefined\<rparr>)
       \<and> create_paste st id' ts (b\<lparr>userid := u\<rparr>)
           = paste_inserted id' (sql st (InsertPaste id' (content b) (format b) ts))
       \<and> status (snd (create_paste st id' ts (b\<lparr>userid := u\<rparr>))) \<noteq> 403
       \<and> issued (fst (create_paste st id' ts (b\<lparr>userid := u\<rparr>)))
           = issued st @ [InsertPaste id' (content b) (format b) ts]
       \<and> users (fst (create_paste st id' ts (b\<lparr>userid := u\<rparr>))) = users st
       \<and> (status (snd (create_paste st id' ts (b\<lparr>userid := u\<rparr>))) = 200 \<longrightarrow>
            (\<exists>i f. pastes (fst (create_paste st id' ts (b\<lparr>userid := u\<rparr>)))
                     = pastes st @ [\<lparr>p_id = i, p_content = toWellFormed (content b), p_format = f,
                                     p_timestamp = ts, p_userid = None\<rparr>]))"
proof -
  let ?q = "InsertPaste id' (content b) (format b) ts"
  from assms have f: "falsy (userid (b\<lparr>userid := u\<rparr>))"
    by auto
  have eq: "create_paste st id' ts (b\<lparr>userid := u\<rparr>) = paste_inserted id' (sql st ?q)"
    using create_paste_anonymous [OF f] by simp
  have eq0: "create_paste st id' ts (b\<lparr>userid := Undefined\<rparr>) = paste_inserted id' (sql st ?q)"
    using create_paste_anonymous [of "b\<lparr>userid := Undefined\<rparr>"] by simp
  have s: "status (snd (paste_inserted id' (sql st ?q))) \<noteq> 403"
    by (simp add: paste_inserted_status split: sum.splits)
  have i: "issued (fst (paste_inserted id' (sql st ?q))) = issued st @ [?q]"
    by (simp add: paste_inserted_fst sql_issued)
  have us: "users (fst (paste_inserted id' (sql st ?q))) = users st"
    by (simp add: paste_inserted_fst sql_insert_paste_users)
  have row: "status (snd (paste_inserted id' (sql st ?q))) = 200 \<longrightarrow>
     (\<exists>i f. pastes (fst (paste_inserted id' (sql st ?q)))
               = pastes st @ [\<lparr>p_id = i, p_content = toWellFormed (content b), p_format = f,
                               p_timestamp = ts, p_userid = None\<rparr>])"
  proof
    assume ok: "status (snd (paste_inserted id' (sql st ?q))) = 200"
    obtain st' res where sq: "sql st ?q = (st', res)"
      by (cases "sql st ?q")
    with ok obtain rows where "res = Inr rows"
      by (cases res) (auto simp: paste_inserted_def)
    with sq sql_insert_paste_success [of st id' "content b" "format b" ts st' rows]
    show "\<exists>i f. pastes (fst (paste_inserted id' (sql st ?q)))
               = pastes st @ [\<lparr>p_id = i, p_content = toWellFormed (content b), p_format = f,
                               p_timestamp = ts, p_userid = None\<rparr>]"
      by (auto simp: paste_inserted_fst)
  qed
  from eq eq0 s i us row show ?thesis
    by simp
qed

theorem create_paste_empty_userid_is_anonymous_witness:
  "create_paste \<lparr>users = [], pastes = [], online = True, issued = []\<rparr> ''AAAAAAAAAAAAAAAA'' 3
     \<lparr>content = ''print(1)'', format = ''python'', userid = Str []\<rparr>
   = (\<lparr>users = [],
        pastes = [\<lparr>p_id = ''AAAAAAAAAAAAAAAA'', p_content = ''print(1)'',
                   p_format = ''python'', p_timestamp = 3, p_userid = None\<rparr>],
        online = True,
        issued = [InsertPaste ''AAAAAAAAAAAAAAAA'' ''print(1)'' ''python'' 3]\<rparr>,
      \<lparr>status = 200, body = Text ''AAAAAAAAAAAAAAAA''\<rparr>)
   \<and> create_paste \<lparr>users = [], pastes = [], online = True, issued = []\<rparr> ''AAAAAAAAAAAAAAAA'' 3
       \<lparr>content = ''print(1)'', format = ''python'', userid = Str []\<rparr>
     = create_paste \<lparr>users = [], pastes = [], online = True, issued = []\<rparr> ''AAAAAAAAAAAAAAAA'' 3
       \<lparr>content = ''print(1)'', format = ''python'', userid = Undefined\<rparr>"
proof -
  let ?st = "\<lparr>users = [], pastes = [], online = True, issued = []\<rparr>"
  let ?b = "\<lparr>content = ''print(1)'', format = ''python'', userid = Null\<rparr>"
  have h: "Str [] = Str [] \<or> Str [] = Null" by simp
  have v: "sql ?st (InsertPaste ''AAAAAAAAAAAAAAAA'' ''print(1)'' ''python'' 3)
     = (\<lparr>users = [],
        pastes = [\<lparr>p_id = ''AAAAAAAAAAAAAAAA'', p_content = ''print(1)'',
                   p_format = ''python'', p_timestamp = 3, p_userid = None\<rparr>],
        online = True,
        issued = [InsertPaste ''AAAAAAAAAAAAAAAA'' ''print(1)'' ''python'' 3]\<rparr>, Inr [])"
    by (simp add: store_eval)
  note t = create_paste_empty_userid_is_anonymous [OF h, of ?st "''AAAAAAAAAAAAAAAA''" 3 ?b]
  from t [THEN conjunct2, THEN conjunct1] v
  have c: "create_paste ?st ''AAAAAAAAAAAAAAAA'' 3
             \<lparr>content = ''print(1)'', format = ''python'', userid = Str []\<rparr>
     = (\<lparr>users = [],
        pastes = [\<lparr>p_id = ''AAAAAAAAAAAAAAAA'', p_content = ''print(1)'',
                   p_format = ''python'', p_timestamp = 3, p_userid = None\<rparr>],
        online = True,
        issued = [InsertPaste ''AAAAAAAAAAAAAAAA'' ''print(1)'' ''python'' 3]\<rparr>,
      \<lparr>status = 200, body = Text ''AAAAAAAAAAAAAAAA''\<rparr>)"
    by (simp add: paste_inserted_def)
  from t [THEN conjunct1]
  have a: "create_paste ?st ''AAAAAAAAAAAAAAAA'' 3
             \<lparr>content = ''print(1)'', format = ''python'', userid = Str []\<rparr>
             = create_paste ?st ''AAAAAAAAAAAAAAAA'' 3
                 \<lparr>content = ''print(1)'', format = ''python'', userid = Undefined\<rparr>"
    by simp
  show ?thesis
    by (rule conjI) (rule c, rule a)
qed

text \<open>
  The creation of an anonymous paste succeeds when the store is reachable, the generated
  identifier is not taken, no U+0000 occurs in the content or the format, and the format
  is well formed and has at most 64 characters.
\<close>

lemma create_paste_anonymous_succeeds:
  assumes "falsy (userid b)" and "\<not> has_nul (content b)" and "\<not> has_nul (format b)"
    and "well_formed (format b)" and "char_length (format b) \<le> 64"
    and "generateId draws = Some id'" and "online st" and "\<not> paste_exists st id'"
  shows "snd (create_paste st id' ts b) = \<lparr>status = 200, body = Text id'\<rparr>"
proof -
  from generateId_plain [OF assms(6)] assms(8) have "\<not> paste_stored st id'"
    by (simp add: paste_exists_def)
  with assms show ?thesis
    by (simp add: create_paste_anonymous paste_inserted_def sql_def Let_def
        character16_generated text_column_def varchar64_def text_value_def varchar_def
        well_formed_def stored_issued)
qed

text \<open>
  C8, as stated, fails on the code, for the format and for the content. The column is
  \<^verbatim>\<open>format VARCHAR(64)\<close> (line 25). A format of 64 letters followed by one space is accepted
  and stored without the space: creation answers 200 with the identifier, and reading that
  identifier answers 200 with a row whose format is not the submitted one. A format of 65
  letters is refused: creation answers 400 and no row exists to read. A content with an
  unpaired surrogate (here U+D800 between two letters) is accepted, and the row read back
  holds U+FFFD in its place.
\<close>

theorem create_then_read_long_format_counterexample:
  "generateId (replicate 16 10) = Some ''AAAAAAAAAAAAAAAA''
   \<and> snd (create_paste \<lparr>users = [], pastes = [], online = True, issued = []\<rparr> ''AAAAAAAAAAAAAAAA'' 0
           \<lparr>content = ''x'', format = replicate 64 (CHR ''a'') @ '' '', userid = Undefined\<rparr>)
       = \<lparr>status = 200, body = Text ''AAAAAAAAAAAAAAAA''\<rparr>
   \<and> snd (read_paste
            (fst (create_paste \<lparr>users = [], pastes = [], online = True, issued = []\<rparr>
                    ''AAAAAAAAAAAAAAAA'' 0
                    \<lparr>content = ''x'', format = replicate 64 (CHR ''a'') @ '' '', userid = Undefined\<rparr>))
            (Some ''AAAAAAAAAAAAAAAA''))
       = \<lparr>status = 200,
          body = Rows [PasteRow \<lparr>p_id = ''AAAAAAAAAAAAAAAA'', p_content = ''x'',
                                 p_format = replicate 64 (CHR ''a''), p_timestamp = 0,
                                 p_userid = None\<rparr>]\<rparr>
   \<and> replicate 64 (CHR ''a'') \<noteq> replicate 64 (CHR ''a'') @ '' ''
   \<and> create_paste \<lparr>users = [], pastes = [], online = True, issued = []\<rparr> ''AAAAAAAAAAAAAAAA'' 0
         \<lparr>content = ''x'', format = replicate 65 (CHR ''a''), userid = Undefined\<rparr>
       = (\<lparr>users = [], pastes = [], online = True,
            issued = [InsertPaste ''AAAAAAAAAAAAAAAA'' ''x'' (replicate 65 (CHR ''a'')) 0]\<rparr>,
          \<lparr>status = 400,
           body = Text ''Couldn't create paste for some reason, ask devs to check the logs''\<rparr>)
   \<and> snd (create_paste \<lparr>users = [], pastes = [], online = True, issued = []\<rparr> ''AAAAAAAAAAAAAAAA'' 0
           \<lparr>content = [CHR ''a'', CHR 0xED, CHR 0xA0, CHR 0x80, CHR ''b''], format = ''text'',
            userid = Undefined\<rparr>)
       = \<lparr>status = 200, body = Text ''AAAAAAAAAAAAAAAA''\<rparr>
   \<and> snd (read_paste
            (fst (create_paste \<lparr>users = [], pastes = [], online = True, issued = []\<rparr>
                    ''AAAAAAAAAAAAAAAA'' 0
                    \<lparr>content = [CHR ''a'', CHR 0xED, CHR 0xA0, CHR 0x80, CHR ''b''],
                     format = ''text'', userid = Undefined\<rparr>))
            (Some ''AAAAAAAAAAAAAAAA''))
       = \<lparr>status = 200,
          body = Rows [PasteRow \<lparr>p_id = ''AAAAAAAAAAAAAAAA'',
                                 p_content = [CHR ''a'', CHR 0xEF, CHR 0xBF, CHR 0xBD, CHR ''b''],
                                 p_format = ''text'', p_timestamp = 0, p_userid = None\<rparr>]\<rparr>"
proof -
  have "generateId (replicate 16 10) = Some ''AAAAAAAAAAAAAAAA''"
    by (simp add: generateId_def alphabet_def numeral_eq_Suc)
  moreover have "replicate 64 (CHR ''a'') \<noteq> replicate 64 (CHR ''a'') @ '' ''"
    by simp
  ultimately show ?thesis
    by (simp add: create_paste_def read_paste_def paste_inserted_def sql_def Let_def
        literal_columns varchar64_trailing_space varchar64_too_long paste_stored_def
        bpchar_eq_refl)
qed

text \<open>
  C8, amended. For every content and format that are well formed (no unpaired surrogate),
  the format of at most 64 characters: when the creation of a paste with no owner answers
  200, the body of the answer is the generated identifier, and reading that identifier next
  answers 200 with exactly one row, which carries the submitted content and format and no
  owner.
\<close>

theorem create_then_read_roundtrip:
  assumes "falsy (userid b)"
    and "well_formed (content b)"
    and "well_formed (format b)"
    and "char_length (format b) \<le> 64"
    and "generateId draws = Some id'"
    and "create_paste st id' ts b = (st', r)"
    and "status r = 200"
  shows "body r = Text id'
         \<and> read_paste st' (Some id')
             = (st'\<lparr>issued := issued st' @ [SelectPaste id']\<rparr>,
                \<lparr>status = 200,
                 body = Rows [PasteRow \<lparr>p_id = id', p_content = content b, p_format = format b,
                                        p_timestamp = ts, p_userid = None\<rparr>]\<rparr>)"
proof -
  let ?q = "InsertPaste id' (content b) (format b) ts"
  let ?row = "\<lparr>p_id = id', p_content = content b, p_format = format b,
               p_timestamp = ts, p_userid = None\<rparr>"
  from generateId_plain [OF assms(5)] have tv: "text_value id' = Some id'" and ne: "id' \<noteq> []"
    by simp_all
  from assms(1, 6) have res: "paste_inserted id' (sql st ?q) = (st', r)"
    by (simp add: create_paste_anonymous)
  obtain st1 out where sq: "sql st ?q = (st1, out)"
    by (cases "sql st ?q")
  with res assms(7) obtain rows where out: "out = Inr rows"
    by (cases out) (auto simp: paste_inserted_def)
  with res sq have st1: "st1 = st'" and r: "r = \<lparr>status = 200, body = Text id'\<rparr>"
    by (auto simp: paste_inserted_def)
  from sql_insert_paste_success [of st id' "content b" "format b" ts st' rows] sq out st1
  obtain i' f' where on: "online st"
    and i': "character16 id' = Inr i'" and f': "varchar64 (format b) = Inr f'"
    and fresh: "\<not> paste_stored st i'"
    and st': "st' = st\<lparr>issued := issued st @ [?q],
                      pastes := pastes st @ [\<lparr>p_id = i', p_content = toWellFormed (content b),
                                               p_format = f', p_timestamp = ts, p_userid = None\<rparr>]\<rparr>"
    by auto
  from i' character16_generated [OF assms(5)] have "i' = id'"
    by simp
  moreover from f' assms(3, 4) have "f' = format b"
    by (rule varchar64_fits [rotated 2])
  moreover from assms(2) have "toWellFormed (content b) = content b"
    by (simp add: well_formed_def)
  ultimately have st'': "st' = st\<lparr>issued := issued st @ [?q], pastes := pastes st @ [?row]\<rparr>"
    and fresh': "\<not> paste_stored st id'"
    using st' fresh by simp_all
  from fresh' have old: "filter (\<lambda>r. bpchar_eq (p_id r) id') (pastes st) = []"
    by (simp add: paste_stored_def filter_no_match)
  have "read_paste st' (Some id')
          = (st'\<lparr>issued := issued st' @ [SelectPaste id']\<rparr>, \<lparr>status = 200, body = Rows [PasteRow ?row]\<rparr>)"
    using ne on old tv
    by (simp add: st'' read_paste_def sql_def Let_def text_column_def bpchar_eq_refl)
  with r show ?thesis
    by simp
qed

theorem create_then_read_roundtrip_witness:
  "body \<lparr>status = 200, body = Text ''AAAAAAAAAAAAAAAA''\<rparr> = Text ''AAAAAAAAAAAAAAAA''
   \<and> read_paste \<lparr>users = [],
                  pastes = [\<lparr>p_id = ''AAAAAAAAAAAAAAAA'', p_content = ''print(1)'',
                             p_format = ''python'', p_timestamp = 3, p_userid = None\<rparr>],
                  online = True,
                  issued = [InsertPaste ''AAAAAAAAAAAAAAAA'' ''print(1)'' ''python'' 3]\<rparr>
       (Some ''AAAAAAAAAAAAAAAA'')
     = (\<lparr>users = [],
          pastes = [\<lparr>p_id = ''AAAAAAAAAAAAAAAA'', p_content = ''print(1)'',
                     p_format = ''python'', p_timestamp = 3, p_userid = None\<rparr>],
          online = True,
          issued = [InsertPaste ''AAAAAAAAAAAAAAAA'' ''print(1)'' ''python'' 3,
                    SelectPaste ''AAAAAAAAAAAAAAAA'']\<rparr>,
        \<lparr>status = 200,
         body = Rows [PasteRow \<lparr>p_id = ''AAAAAAAAAAAAAAAA'', p_content = ''print(1)'',
                                p_format = ''python'', p_timestamp = 3, p_userid = None\<rparr>]\<rparr>)"
proof -
  let ?b = "\<lparr>content = ''print(1)'', format = ''python'', userid = Undefined\<rparr>"
  let ?st = "\<lparr>users = [], pastes = [], online = True, issued = []\<rparr>"
  let ?st' = "\<lparr>users = [],
                pastes = [\<lparr>p_id = ''AAAAAAAAAAAAAAAA'', p_content = ''print(1)'',
                           p_format = ''python'', p_timestamp = 3, p_userid = None\<rparr>],
                online = True,
                issued = [InsertPaste ''AAAAAAAAAAAAAAAA'' ''print(1)'' ''python'' 3]\<rparr>"
  let ?r = "\<lparr>status = 200, body = Text ''AAAAAAAAAAAAAAAA''\<rparr>"
  have h1: "falsy (userid ?b)" by simp
  have h2: "well_formed (content ?b)" by (simp add: well_formed_def surrogate_lead_def)
  have h3: "well_formed (format ?b)" by (simp add: well_formed_def surrogate_lead_def)
  have h4: "char_length (format ?b) \<le> 64" by (simp add: char_length_def)
  have h5: "generateId (replicate 16 10) = Some ''AAAAAAAAAAAAAAAA''"
    by (simp add: generateId_def alphabet_def numeral_eq_Suc)
  have h6: "create_paste ?st ''AAAAAAAAAAAAAAAA'' 3 ?b = (?st', ?r)"
    by (simp add: create_paste_def paste_inserted_def store_eval)
  have h7: "status ?r = 200" by simp
  from create_then_read_roundtrip [OF h1 h2 h3 h4 h5 h6 h7] show ?thesis
    by simp
qed

text \<open>
  C3, evaluated on the code. The store holds no user at all, so the identifier of the
  request references no user. Line 158 negates the promise that \<^verbatim>\<open>validateUser\<close> returns,
  not its value: the 403 branch is not taken, the \<^verbatim>\<open>SELECT\<close> on \<^verbatim>\<open>pastes\<close> is sent, and the
  response is 404.
\<close>

theorem read_pastes_unknown_user_reaches_query:
  "read_pastes \<lparr>users = [], pastes = [], online = True, issued = []\<rparr> (Some ''AAAAAAAAAAAAAAAA'')
     = (\<lparr>users = [], pastes = [], online = True,
          issued = [SelectUser ''AAAAAAAAAAAAAAAA'', SelectPastesOf ''AAAAAAAAAAAAAAAA'']\<rparr>,
        \<lparr>status = 404, body = Text ''No user with id AAAAAAAAAAAAAAAA found''\<rparr>)
   \<and> \<not> user_exists \<lparr>users = [], pastes = [], online = True, issued = []\<rparr> ''AAAAAAAAAAAAAAAA''"
  by (simp add: read_pastes_def validateUser_def sql_def Let_def user_exists_def user_stored_def
      literal_columns text_value_def has_nul_def)

lemma read_pastes_always_queries:
  "id' \<noteq> [] \<Longrightarrow>
   issued (fst (read_pastes st (Some id'))) = issued st @ [SelectUser id', SelectPastesOf id']"
proof -
  assume ne: "id' \<noteq> []"
  obtain st1 p where v: "validateUser st id' = (st1, p)"
    by (cases "validateUser st id'")
  then have "st1 = fst (sql st (SelectUser id'))"
    by (auto simp: validateUser_def split: prod.splits sum.splits if_splits)
  then have i1: "issued st1 = issued st @ [SelectUser id']"
    by (simp add: sql_issued)
  have "fst (read_pastes st (Some id')) = fst (sql st1 (SelectPastesOf id'))"
    using ne v by (cases p) (auto simp: read_pastes_def split: prod.splits sum.splits)
  with i1 show ?thesis
    by (simp add: sql_issued)
qed

text \<open>
  C5, evaluated on the code. With a store that cannot be reached, the query of either read
  handler is rejected; both \<^verbatim>\<open>catch\<close> blocks (lines 132--138 and 170--176) set status 403,
  with a message that has no detail of the failure.
\<close>

theorem read_handlers_failed_query_status:
  "read_paste \<lparr>users = [], pastes = [], online = False, issued = []\<rparr> (Some ''AAAAAAAAAAAAAAAA'')
     = (\<lparr>users = [], pastes = [], online = False, issued = [SelectPaste ''AAAAAAAAAAAAAAAA'']\<rparr>,
        \<lparr>status = 403,
         body = Text ''Couldn't execute read paste SQL for some reason, ask devs to check the logs''\<rparr>)
   \<and> read_pastes \<lparr>users = [], pastes = [], online = False, issued = []\<rparr> (Some ''AAAAAAAAAAAAAAAA'')
     = (\<lparr>users = [], pastes = [], online = False,
          issued = [SelectUser ''AAAAAAAAAAAAAAAA'', SelectPastesOf ''AAAAAAAAAAAAAAAA'']\<rparr>,
        \<lparr>status = 403,
         body = Text ''Couldn't execute read paste SQL for some reason, ask devs to check the logs''\<rparr>)"
  by (simp add: read_paste_def read_pastes_def read_failed_def validateUser_def sql_def Let_def)

text \<open>
  The same answer follows a query that the server refuses, and the two creating handlers
  answer 400 when their insertion is rejected.
\<close>

lemma read_paste_failed_query:
  "id' \<noteq> [] \<Longrightarrow> \<not> online st \<Longrightarrow> snd (read_paste st (Some id')) = read_failed"
  by (simp add: read_paste_def sql_def Let_def)

lemma read_pastes_failed_query:
  "id' \<noteq> [] \<Longrightarrow> \<not> online st \<Longrightarrow> snd (read_pastes st (Some id')) = read_failed"
  by (simp add: read_pastes_def validateUser_def sql_def Let_def)

lemma read_paste_refused_query:
  "id' \<noteq> [] \<Longrightarrow> has_nul id' \<Longrightarrow> snd (read_paste st (Some id')) = read_failed"
  by (simp add: read_paste_def sql_def Let_def text_column_def text_value_def)

lemma create_user_failed_query:
  "\<not> online st \<Longrightarrow> status (snd (create_user st id' ts)) = 400"
  by (simp add: create_user_def sql_def Let_def)

lemma create_paste_failed_query:
  "\<not> online st \<Longrightarrow> falsy (userid b) \<Longrightarrow> status (snd (create_paste st id' ts b)) = 400"
  by (simp add: create_paste_def paste_inserted_def sql_def Let_def)

text \<open>
  C2, evaluated on the code. The client's record holds \<open>count = 11\<close> in a window that is
  still open, so \<^verbatim>\<open>rateLimiter\<close> would answer 429 to this request. The limiter is the last
  middleware registered (line 225), after the router (line 223): for the request
  \<^verbatim>\<open>GET /create-user\<close> the router runs the handler, which inserts a user and answers 200, and
  the limiter is never called; its map is as before. This holds for every middleware in
  the place of \<^verbatim>\<open>router.allowedMethods()\<close>.
\<close>

theorem app_runs_handler_before_rateLimiter:
  "rateLimiter [''10.0.0.7'' \<mapsto> \<lparr>count = 11, lastRequestTime = 0\<rparr>] ''10.0.0.7'' 11
     = ([''10.0.0.7'' \<mapsto> \<lparr>count = 11, lastRequestTime = 0\<rparr>], Some rate_limited)
   \<and> app allowedMethods
       \<lparr>ip = ''10.0.0.7'', verb = GET, path = [''create-user''],
        json = \<lparr>content = [], format = [], userid = Undefined\<rparr>, clock = 11,
        nanoid = ''AAAAAAAAAAAAAAAA''\<rparr>
       \<lparr>db = \<lparr>users = [], pastes = [], online = True, issued = []\<rparr>,
        rateLimitMap = [''10.0.0.7'' \<mapsto> \<lparr>count = 11, lastRequestTime = 0\<rparr>]\<rparr>
     = (\<lparr>db = \<lparr>users = [\<lparr>u_id = ''AAAAAAAAAAAAAAAA'', u_timestamp = 11\<rparr>], pastes = [],
               online = True, issued = [InsertUser ''AAAAAAAAAAAAAAAA'' 11]\<rparr>,
          rateLimitMap = [''10.0.0.7'' \<mapsto> \<lparr>count = 11, lastRequestTime = 0\<rparr>]\<rparr>,
        \<lparr>status = 200, body = Text ''AAAAAAAAAAAAAAAA''\<rparr>)"
  by (simp add: rateLimiter_def RATE_LIMIT_WINDOW_def MAX_REQUESTS_def app_def routes_def
      route_def segment_is_def is_get_def on_store_def create_user_def sql_def Let_def
      literal_columns user_stored_def)

text \<open>
  The limiter itself ends the stack when it rejects; a matched route never reaches it, in
  whatever case its path is written.
\<close>

lemma routes_create_user_skips_stack:
  "is_get (verb req) \<Longrightarrow> route ''create-user'' (path req) \<Longrightarrow>
   rateLimitMap (fst (app allowedMethods req w)) = rateLimitMap w"
  by (simp add: app_def routes_def on_store_def split: prod.splits)

lemma route_ignores_case: "route ''create-user'' [''CREATE-User'']"
  by (simp add: route_def segment_is_def fold_case_def)

lemma rateLimiter_middleware_rejects:
  "rateLimiter (rateLimitMap w) (ip req) (clock req) = (m, Some r) \<Longrightarrow>
   rateLimiter_middleware req next (w, res) = (w, r)"
  by (auto simp: rateLimiter_middleware_def dest: rateLimiter_reject_keeps_map)

end
